theory Spec2Isabelle
  imports Complex_Main "HOL-Library.Word" "HOL-Library.Signed_Division" "HOL-Library.Sublist"
begin

section \<open>Machine integers, formatting and paths\<close>

text \<open>
  Go's \<^verbatim>\<open>int64\<close>, \<^verbatim>\<open>int32\<close> and \<^verbatim>\<open>int8\<close> are words read in two's complement
  (\<^term>\<open>sint\<close>); \<^verbatim>\<open>+\<close>, \<^verbatim>\<open>-\<close> and \<^verbatim>\<open>*\<close> wrap around. A \<^verbatim>\<open>[]byte\<close> is a list of
  8-bit words and a Go string is a list of bytes (\<^typ>\<open>string\<close>).
\<close>

type_synonym int64 = "64 word"
type_synonym int32 = "32 word"
type_synonym int8 = "8 word"
type_synonym byte = "8 word"

text \<open>
  Go's \<^verbatim>\<open>/\<close> and \<^verbatim>\<open>%\<close> on signed integers truncate towards zero; the remainder has
  the sign of the dividend.
\<close>

definition quo64 :: "int64 \<Rightarrow> int64 \<Rightarrow> int64" where
  "quo64 a b = word_of_int (sint a sdiv sint b)"

definition rem64 :: "int64 \<Rightarrow> int64 \<Rightarrow> int64" where
  "rem64 a b = word_of_int (sint a smod sint b)"

text \<open>The builtin \<^verbatim>\<open>max\<close> at type \<^verbatim>\<open>int8\<close> compares signed values.\<close>

definition max8 :: "int8 \<Rightarrow> int8 \<Rightarrow> int8" where
  "max8 a b = (if a <s b then b else a)"

text \<open>The verb \<^verbatim>\<open>%d\<close> of package fmt on an \<^verbatim>\<open>int64\<close>: the decimal digits, after a
  minus sign for a negative value.\<close>

fun decimal :: "nat \<Rightarrow> string" where
  "decimal n = (if n < 10 then [char_of (48 + n)]
                else decimal (n div 10) @ [char_of (48 + n mod 10)])"

declare decimal.simps [simp del]

definition fmt_d :: "int64 \<Rightarrow> string" where
  "fmt_d v = (if sint v < 0 then CHR ''-'' # decimal (nat (- sint v))
              else decimal (nat (sint v)))"

text \<open>
  The verb \<^verbatim>\<open>%c\<close> on an \<^verbatim>\<open>int8\<close>: fmt converts the value to \<^verbatim>\<open>uint64\<close> (sign
  extended) and prints the UTF-8 encoding of that code point, or of U+FFFD when it is
  above the largest rune. A value from 0 to 127 is one ASCII byte; a negative value
  becomes the three bytes of U+FFFD.
\<close>

definition fmt_c :: "int8 \<Rightarrow> string" where
  "fmt_c v = (if 0 \<le> sint v then [char_of (sint v)] else [CHR 0xEF, CHR 0xBF, CHR 0xBD])"

text \<open>\<^verbatim>\<open>strings.Split(s, sep)\<close> for a separator of one byte.\<close>

fun Split :: "string \<Rightarrow> char \<Rightarrow> string list" where
  "Split [] sep = [[]]"
| "Split (c # cs) sep =
     (if c = sep then [] # Split cs sep
      else (case Split cs sep of [] \<Rightarrow> [[c]] | part # parts \<Rightarrow> (c # part) # parts))"

text \<open>\<^verbatim>\<open>strings.Join(elems, "/")\<close>.\<close>

fun join_slash :: "string list \<Rightarrow> string" where
  "join_slash [] = []"
| "join_slash [e] = e"
| "join_slash (e # es) = e @ ''/'' @ join_slash es"

text \<open>
  \<^verbatim>\<open>path.Clean\<close>, which is \<^verbatim>\<open>filepath.Clean\<close> where the separator is the slash: the
  shortest path equivalent by lexical processing. Over the elements between the
  slashes, from left to right and with the elements kept so far in \<open>out\<close> (the last
  one first): an empty element and \<^verbatim>\<open>.\<close> are dropped; \<^verbatim>\<open>..\<close> removes the element kept
  before it unless that is \<^verbatim>\<open>..\<close> itself, is dropped at the root of a rooted path, and
  is kept at the start of a relative one. The cleaned path of no element is \<^verbatim>\<open>/\<close> when
  rooted and \<^verbatim>\<open>.\<close> otherwise.
\<close>

fun clean_elems :: "bool \<Rightarrow> string list \<Rightarrow> string list \<Rightarrow> string list" where
  "clean_elems rooted [] out = rev out"
| "clean_elems rooted (e # es) out =
     (if e = [] \<or> e = ''.'' then clean_elems rooted es out
      else if e = ''..'' then
        (case out of
           [] \<Rightarrow> if rooted then clean_elems rooted es out else clean_elems rooted es (e # out)
         | kept # rest \<Rightarrow>
             if kept = ''..'' then clean_elems rooted es (e # out)
             else clean_elems rooted es rest)
      else clean_elems rooted es (e # out))"

definition Clean :: "string \<Rightarrow> string" where
  "Clean path =
     (case path of
        [] \<Rightarrow> ''.''
      | c # cs \<Rightarrow>
          (let rooted = (c = CHR ''/'');
               out = join_slash (clean_elems rooted (Split path CHR ''/'') [])
           in if rooted then CHR ''/'' # out
              else if out = [] then ''.''
              else out))"

text \<open>
  \<^verbatim>\<open>filepath.Join\<close> and \<^verbatim>\<open>path.Join\<close>: the elements from the first non-empty one on,
  separated by slashes, and cleaned; the empty string when every element is empty.
\<close>

definition Join :: "string list \<Rightarrow> string" where
  "Join elem =
     (case dropWhile (\<lambda>e. e = []) elem of
        [] \<Rightarrow> []
      | e # es \<Rightarrow> Clean (join_slash (e # es)))"

section \<open>Errors and the world outside\<close>

text \<open>
  A Go \<^verbatim>\<open>error\<close> is a value. \<open>ENOENT\<close> stands for an error of package os for which
  \<^verbatim>\<open>os.IsNotExist\<close> holds, \<open>Failure\<close> for every other error of the operating system or
  of the database driver, \<open>Errorf\<close> for an error made by \<^verbatim>\<open>fmt.Errorf\<close>; each carries its
  message. \<open>Panic\<close> is a run-time panic.
\<close>

datatype error = ENOENT string | Failure string | Errorf string | Panic string

fun message :: "error \<Rightarrow> string" where
  "message (ENOENT m) = m"
| "message (Failure m) = m"
| "message (Errorf m) = m"
| "message (Panic m) = m"

text \<open>\<^verbatim>\<open>os.IsNotExist(err)\<close>; \<open>None\<close> is the nil error.\<close>

fun IsNotExist :: "error option \<Rightarrow> bool" where
  "IsNotExist (Some (ENOENT m)) = True"
| "IsNotExist _ = False"

text \<open>An \<^verbatim>\<open>os.DirEntry\<close>, with what its methods \<^verbatim>\<open>Name()\<close> and \<^verbatim>\<open>IsDir()\<close> return.\<close>

datatype DirEntry = DirEntry (dName: string) (dIsDir: bool)

text \<open>
  What the code asks of the file system and of the database driver, as functions of the
  path (a database handle is named by the path it was opened on):
  \<^item> \<open>os_Stat\<close>: \<^verbatim>\<open>os.Stat\<close>, the error or the file's \<^verbatim>\<open>Size()\<close>;
  \<^item> \<open>os_ReadDir\<close>: \<^verbatim>\<open>os.ReadDir\<close>;
  \<^item> \<open>sql_Open\<close>: the error of \<^verbatim>\<open>sql.Open("sqlite3", path)\<close>, if any;
  \<^item> \<open>query_Data\<close>: \<^verbatim>\<open>db.Query\<close> of a statement selecting the column \<^verbatim>\<open>Data\<close>: the
    error, or the rows in order, each with what \<^verbatim>\<open>rows.Scan\<close> gives for it;
  \<^item> \<open>query_Names\<close>: the same for the table names of \<^verbatim>\<open>sqlite_master\<close>;
  \<^item> \<open>query_Extent\<close>: \<^verbatim>\<open>db.QueryRow(sql).Scan\<close> of the four aggregates
    \<^verbatim>\<open>min(X), max(X), min(Y), max(Y)\<close>;
  \<^item> \<open>os_Create\<close> and \<open>file_Write\<close>: the error of creating a file and of writing to it,
    if any.
\<close>

record world =
  os_Stat :: "string \<Rightarrow> error + int64"
  os_ReadDir :: "string \<Rightarrow> error + DirEntry list"
  sql_Open :: "string \<Rightarrow> error option"
  query_Data :: "string \<Rightarrow> string \<Rightarrow> error + (error + byte list) list"
  query_Names :: "string \<Rightarrow> error + (error + string) list"
  query_Extent :: "string \<Rightarrow> string \<Rightarrow> error + (int64 \<times> int64 \<times> int64 \<times> int64)"
  os_Create :: "string \<Rightarrow> error option"
  file_Write :: "string \<Rightarrow> error option"

fun err_of :: "error + 'a \<Rightarrow> error option" where
  "err_of (Inl e) = Some e"
| "err_of (Inr v) = None"

section \<open>Fetching a tile: \<^verbatim>\<open>SRepository.GetXYZ\<close>\<close>

record SRepository =
  dir :: string

text \<open>The values \<^verbatim>\<open>GetXYZ\<close> computes from its arguments, under the names it gives them.
  \<^verbatim>\<open>'A'+vz\<close> is an addition at type \<^verbatim>\<open>int8\<close>.\<close>

definition vz :: "int8 \<Rightarrow> int8" where
  "vz z = max8 z 9"

definition subDir :: "int8 \<Rightarrow> string" where
  "subDir z = fmt_c (65 + vz z)"

definition dbFile :: "int64 \<Rightarrow> int64 \<Rightarrow> int8 \<Rightarrow> string" where
  "dbFile x y z =
     fmt_c (65 + vz z) @ ''_'' @ fmt_d (quo64 x 256) @ ''_'' @ fmt_d (quo64 y 256) @ ''.s''"

definition filePath :: "SRepository \<Rightarrow> int64 \<Rightarrow> int64 \<Rightarrow> int8 \<Rightarrow> string" where
  "filePath f x y z = Join [dir f, subDir z, dbFile x y z]"

definition tableName :: "int64 \<Rightarrow> int64 \<Rightarrow> int8 \<Rightarrow> string" where
  "tableName x y z =
     fmt_c (65 + vz z) @ ''_'' @ fmt_d (quo64 x 64) @ ''_'' @ fmt_d (quo64 y 64)"

definition index :: "int64 \<Rightarrow> int64 \<Rightarrow> int64" where
  "index x y = rem64 x 64 + 64 * rem64 y 64"

definition selectSql :: "int64 \<Rightarrow> int64 \<Rightarrow> int8 \<Rightarrow> string" where
  "selectSql x y z =
     ''select Data from '' @ tableName x y z @ '' where ID='' @ fmt_d (index x y)"

text \<open>
  The calls \<^verbatim>\<open>GetXYZ\<close> makes to the file system and to the database, in order, are
  returned beside its result. The deferred \<^verbatim>\<open>db.Close()\<close> runs on every return after
  a successful \<^verbatim>\<open>sql.Open\<close>.
\<close>

datatype event = EvStat string | EvOpen string | EvQuery string string | EvClose string

definition GetXYZ ::
  "world \<Rightarrow> SRepository \<Rightarrow> int64 \<Rightarrow> int64 \<Rightarrow> int8 \<Rightarrow> (error + byte list) \<times> event list" where
  "GetXYZ w f x y z =
     (let p = filePath f x y z in
      if IsNotExist (err_of (os_Stat w p))
      then (Inl (Errorf (p @ '' not exist'')), [EvStat p])
      else
        (case sql_Open w p of
           Some err \<Rightarrow> (Inl err, [EvStat p, EvOpen p])
         | None \<Rightarrow>
             (let q = selectSql x y z;
                  calls = [EvStat p, EvOpen p, EvQuery p q, EvClose p]
              in case query_Data w p q of
                   Inl err \<Rightarrow> (Inl err, calls)
                 | Inr [] \<Rightarrow> (Inl (Errorf (p @ '' not exist'')), calls)
                 | Inr (Inl err # rest) \<Rightarrow> (Inl err, calls)
                 | Inr (Inr data # rest) \<Rightarrow> (Inr data, calls))))"

section \<open>Bounding boxes\<close>

text \<open>
  A \<^verbatim>\<open>float64\<close> is modelled by the real number it denotes: arithmetic is exact (no
  rounding), and there is no NaN and no infinity. \<open>MaxFloat64\<close> is the largest finite
  \<^verbatim>\<open>float64\<close>, \<open>2 ^ 1024 - 2 ^ 971\<close>; every finite \<^verbatim>\<open>float64\<close> lies between
  \<open>- MaxFloat64\<close> and \<open>MaxFloat64\<close>. The builtins \<^verbatim>\<open>min\<close> and \<^verbatim>\<open>max\<close> are the
  minimum and the maximum of the two values.
\<close>

definition MaxFloat64 :: real where
  "MaxFloat64 = 2 ^ 1024 - 2 ^ 971"

definition finite_float64 :: "real \<Rightarrow> bool" where
  "finite_float64 v = (- MaxFloat64 \<le> v \<and> v \<le> MaxFloat64)"

record Box =
  minx :: real
  miny :: real
  maxx :: real
  maxy :: real

text \<open>The descriptor of a repository; \<open>Pared\<close> says that it comes from a scan.\<close>

record Repository =
  Name :: string
  Lng :: real
  Lat :: real
  Zoom :: int
  Size :: real
  Url :: string
  Pared :: bool

definition NewBox :: Box where
  "NewBox = \<lparr>minx = MaxFloat64, miny = MaxFloat64, maxx = - MaxFloat64, maxy = - MaxFloat64\<rparr>"

definition extend :: "Box \<Rightarrow> Box \<Rightarrow> Box" where
  "extend b b2 =
     \<lparr>minx = min (minx b) (minx b2), miny = min (miny b) (miny b2),
      maxx = max (maxx b) (maxx b2), maxy = max (maxy b) (maxy b2)\<rparr>"

definition IsEmpty :: "Box \<Rightarrow> bool" where
  "IsEmpty b = (minx b = MaxFloat64 \<and> miny b = MaxFloat64 \<and>
                maxx b = - MaxFloat64 \<and> maxy b = - MaxFloat64)"

text \<open>A box of finite \<^verbatim>\<open>float64\<close> coordinates.\<close>

definition finite_box :: "Box \<Rightarrow> bool" where
  "finite_box b = (finite_float64 (minx b) \<and> finite_float64 (miny b) \<and>
                   finite_float64 (maxx b) \<and> finite_float64 (maxy b))"

section \<open>The Mercator projection\<close>

definition INITIALIZE_RESOLUTION :: real where
  "INITIALIZE_RESOLUTION = 2 * pi * 6378137 / 256"

definition ORIGIN_SHIFT :: real where
  "ORIGIN_SHIFT = 2 * pi * 6378137 / 2"

text \<open>\<^verbatim>\<open>math.Pow(2, float64(zoom))\<close> is the real power \<open>2 powr zoom\<close>.\<close>

definition pixelsToMeters :: "real \<Rightarrow> real \<Rightarrow> int32 \<Rightarrow> real \<times> real" where
  "pixelsToMeters px py zoom =
     (let res = INITIALIZE_RESOLUTION / (2 powr real_of_int (sint zoom));
          mx = px * res - ORIGIN_SHIFT;
          my = - (py * res - ORIGIN_SHIFT)
      in (mx, my))"

definition meterToLngLat :: "real \<Rightarrow> real \<Rightarrow> real \<times> real" where
  "meterToLngLat mx my =
     (let lon = (mx / ORIGIN_SHIFT) * 180;
          lat = (my / ORIGIN_SHIFT) * 180;
          lat = 180 / pi * (2 * arctan (exp (lat * pi / 180)) - pi / 2)
      in (lon, lat))"

text \<open>\<^verbatim>\<open>tx+1\<close> and \<^verbatim>\<open>ty+1\<close> are additions at type \<^verbatim>\<open>int64\<close>, converted afterwards.\<close>

definition tileBound :: "int64 \<Rightarrow> int64 \<Rightarrow> int32 \<Rightarrow> Box" where
  "tileBound tx ty zoom =
     (let tileSize = 256;
          (x, y) = pixelsToMeters (real_of_int (sint tx) * tileSize)
                     (real_of_int (sint ty) * tileSize) zoom;
          (x0, y0) = meterToLngLat x y;
          (x', y') = pixelsToMeters (real_of_int (sint (tx + 1)) * tileSize)
                       (real_of_int (sint (ty + 1)) * tileSize) zoom;
          (x1, y1) = meterToLngLat x' y'
      in \<lparr>minx = x0, miny = y1, maxx = x1, maxy = y0\<rparr>)"

section \<open>Scanning a shard file: \<^verbatim>\<open>listTables\<close> and \<^verbatim>\<open>calExtend\<close>\<close>

text \<open>The loop of \<^verbatim>\<open>listTables\<close> over the rows: a row that does not scan is skipped,
  a name is kept when it splits into three parts at the underscores.\<close>

fun table_rows :: "(error + string) list \<Rightarrow> string list" where
  "table_rows [] = []"
| "table_rows (Inl err # rows) = table_rows rows"
| "table_rows (Inr tname # rows) =
     (if length (Split tname CHR ''_'') = 3 then tname # table_rows rows
      else table_rows rows)"

definition listTables :: "world \<Rightarrow> string \<Rightarrow> error + string list" where
  "listTables w db =
     (case query_Names w db of
        Inl err \<Rightarrow> Inl err
      | Inr rows \<Rightarrow> Inr (table_rows rows))"

text \<open>
  The loop of \<^verbatim>\<open>calExtend\<close> over the table names. \<^verbatim>\<open>tableName[0]\<close> panics on an empty
  name; the zoom is \<^verbatim>\<open>int32(tableName[0]) - int32('A')\<close>.
\<close>

fun extend_tables :: "world \<Rightarrow> string \<Rightarrow> string list \<Rightarrow> Box \<Rightarrow> error + Box" where
  "extend_tables w db [] box = Inr box"
| "extend_tables w db (tname # rest) box =
     (case query_Extent w db (''select min(X), max(X), min(Y), max(Y) from '' @ tname) of
        Inl err \<Rightarrow> Inl err
      | Inr (tileXMin, tileXMax, tileYMin, tileYMax) \<Rightarrow>
          (case tname of
             [] \<Rightarrow> Inl (Panic ''index out of range'')
           | c # cs \<Rightarrow>
               (let zoom = (of_nat (of_char c) :: int32) - 65;
                    minTile = tileBound tileXMin tileYMin zoom;
                    maxTile = tileBound tileXMax tileYMax zoom
                in extend_tables w db rest (extend (extend box minTile) maxTile))))"

definition calExtend :: "world \<Rightarrow> string \<Rightarrow> error + Box" where
  "calExtend w sFilePath =
     (case sql_Open w sFilePath of
        Some err \<Rightarrow> Inl err
      | None \<Rightarrow>
          (case listTables w sFilePath of
             Inl err \<Rightarrow> Inl err
           | Inr tableNames \<Rightarrow> extend_tables w sFilePath tableNames NewBox))"

section \<open>Scanning a repository\<close>

definition listAllFile :: "world \<Rightarrow> string \<Rightarrow> error + string list" where
  "listAllFile w d =
     (case os_ReadDir w d of
        Inl err \<Rightarrow> Inl err
      | Inr dirs \<Rightarrow>
          Inr (map (\<lambda>e. Join [d, dName e])
                 (filter (\<lambda>e. \<not> dIsDir e \<and> suffix ''.s'' (dName e)) dirs)))"

text \<open>\<^verbatim>\<open>regexp.MatchString("^[A-Z]$", name)\<close>: the name is one capital letter. The
  pattern is valid, so the call returns no error.\<close>

fun MatchString_A_Z :: "string \<Rightarrow> bool" where
  "MatchString_A_Z [c] = (65 \<le> (of_char c :: nat) \<and> (of_char c :: nat) \<le> 90)"
| "MatchString_A_Z name = False"

definition listSubDir :: "world \<Rightarrow> string \<Rightarrow> error + string list" where
  "listSubDir w d =
     (case os_ReadDir w d of
        Inl err \<Rightarrow> Inl err
      | Inr dirs \<Rightarrow>
          Inr (map (\<lambda>e. Join [d, dName e])
                 (filter (\<lambda>e. dIsDir e \<and> MatchString_A_Z (dName e)) dirs)))"

text \<open>
  The inner loop of \<^verbatim>\<open>analysisRepository\<close> over the files of one subdirectory, on the
  accumulators \<^verbatim>\<open>box\<close> and \<^verbatim>\<open>fileSize\<close>: both \<^verbatim>\<open>continue\<close> statements go on with the
  next file.
\<close>

fun scan_files :: "world \<Rightarrow> string list \<Rightarrow> Box \<times> real \<Rightarrow> Box \<times> real" where
  "scan_files w [] acc = acc"
| "scan_files w (file # files) (box, fileSize) =
     (case calExtend w file of
        Inl err \<Rightarrow> scan_files w files (box, fileSize)
      | Inr box1 \<Rightarrow>
          (case os_Stat w file of
             Inl err \<Rightarrow> scan_files w files (extend box box1, fileSize)
           | Inr sz \<Rightarrow>
               scan_files w files (extend box box1, fileSize + real_of_int (sint sz))))"

text \<open>The outer loop, over the subdirectories: an error of \<^verbatim>\<open>listAllFile\<close> returns.\<close>

fun scan_subdirs :: "world \<Rightarrow> string list \<Rightarrow> Box \<times> real \<Rightarrow> error + Box \<times> real" where
  "scan_subdirs w [] acc = Inr acc"
| "scan_subdirs w (sub # subdirs) acc =
     (case listAllFile w sub of
        Inl err \<Rightarrow> Inl err
      | Inr files \<Rightarrow> scan_subdirs w subdirs (scan_files w files acc))"

text \<open>
  The files \<^verbatim>\<open>repository.json\<close> are the part of the file system that the code writes.
  For each path: the error of opening the file, the error of decoding its JSON, or the
  descriptor it decodes to. A descriptor written as JSON decodes to itself. Creating the
  file truncates it, so a file created and not written does not decode.
  \<^verbatim>\<open>json.MarshalIndent\<close> fails on a NaN or an infinity only, which the model has not.
  The new file is a directory entry that none of the listings here reads (it is no
  directory, and it is not inside a letter subdirectory).
\<close>

datatype sidecar = OpenError error | DecodeError error | Content Repository

type_synonym disk = "string \<Rightarrow> sidecar"

definition readRepositoryInfo :: "disk \<Rightarrow> string \<Rightarrow> DirEntry \<Rightarrow> error + Repository" where
  "readRepositoryInfo dk baseDir entry =
     (let fullPath = Join [baseDir, dName entry, ''repository.json'']
      in case dk fullPath of
           OpenError err \<Rightarrow> Inl (Errorf (''failed to open repository.json: '' @ message err))
         | DecodeError err \<Rightarrow> Inl (Errorf (''failed to parse repository.json: '' @ message err))
         | Content repo \<Rightarrow> Inr repo)"

definition analysisRepository ::
  "world \<Rightarrow> disk \<Rightarrow> string \<Rightarrow> DirEntry \<Rightarrow> (error + Repository) \<times> disk" where
  "analysisRepository w dk baseDir entry =
     (let repo = \<lparr>Name = dName entry, Lng = 113, Lat = 40, Zoom = 10, Size = 0,
                  Url = dName entry, Pared = False\<rparr>
      in case listSubDir w (Join [baseDir, dName entry]) of
           Inl err \<Rightarrow> (Inl err, dk)
         | Inr subdirs \<Rightarrow>
             (case scan_subdirs w subdirs (NewBox, 0) of
                Inl err \<Rightarrow> (Inl err, dk)
              | Inr (box, fileSize) \<Rightarrow>
                  (let fullPath = Join [baseDir, dName entry, ''repository.json''];
                       repo = repo\<lparr>Pared := True, Zoom := 14,
                                   Lat := 0.5 * (miny box + maxy box),
                                   Lng := 0.5 * (minx box + maxx box),
                                   Size := fileSize\<rparr>
                   in case os_Create w fullPath of
                        Some err \<Rightarrow>
                          (Inl (Errorf (''failed to create repository.json: '' @ message err)), dk)
                      | None \<Rightarrow>
                          (case file_Write w fullPath of
                             Some err \<Rightarrow>
                               (Inl (Errorf (''failed to write repository.json: '' @ message err)),
                                dk(fullPath := DecodeError (Failure ''EOF'')))
                           | None \<Rightarrow> (Inr repo, dk(fullPath := Content repo))))))"

text \<open>The descriptor \<^verbatim>\<open>ListRepositories\<close> appends when the scan returns an error.\<close>

definition placeholder :: "DirEntry \<Rightarrow> Repository" where
  "placeholder d = \<lparr>Name = dName d, Lng = 113, Lat = 40, Zoom = 10, Size = 0,
                    Url = dName d, Pared = False\<rparr>"

text \<open>The loop of \<^verbatim>\<open>ListRepositories\<close> over the directory entries.\<close>

fun list_entries ::
  "world \<Rightarrow> string \<Rightarrow> DirEntry list \<Rightarrow> Repository list \<times> disk \<Rightarrow> Repository list \<times> disk" where
  "list_entries w baseDir [] acc = acc"
| "list_entries w baseDir (d # dirs) (repositories, dk) =
     (if dIsDir d then
        (case readRepositoryInfo dk baseDir d of
           Inr repo \<Rightarrow> list_entries w baseDir dirs (repositories @ [repo], dk)
         | Inl err \<Rightarrow>
             (case analysisRepository w dk baseDir d of
                (Inl err', dk') \<Rightarrow> list_entries w baseDir dirs (repositories @ [placeholder d], dk')
              | (Inr repo, dk') \<Rightarrow> list_entries w baseDir dirs (repositories @ [repo], dk')))
      else list_entries w baseDir dirs (repositories, dk))"

definition ListRepositories :: "world \<Rightarrow> disk \<Rightarrow> string \<Rightarrow> (error + Repository list) \<times> disk" where
  "ListRepositories w dk baseDir =
     (case os_ReadDir w baseDir of
        Inl err \<Rightarrow> (Inl err, dk)
      | Inr dirs \<Rightarrow>
          (case list_entries w baseDir dirs ([], dk) of
             (repositories, dk') \<Rightarrow> (Inr repositories, dk')))"

section \<open>What a scan accumulates\<close>

text \<open>The shard files of the listed subdirectories, and of a repository.\<close>

definition scanned_files :: "world \<Rightarrow> string list \<Rightarrow> string list" where
  "scanned_files w subdirs =
     concat (map (\<lambda>sub. case listAllFile w sub of Inl err \<Rightarrow> [] | Inr files \<Rightarrow> files) subdirs)"

definition repository_files :: "world \<Rightarrow> string \<Rightarrow> DirEntry \<Rightarrow> string list" where
  "repository_files w baseDir entry =
     (case listSubDir w (Join [baseDir, dName entry]) of
        Inl err \<Rightarrow> []
      | Inr subdirs \<Rightarrow> scanned_files w subdirs)"

text \<open>
  The size of a shard file, and the specification's words for the size of a
  repository: the sum of all shard-file byte sizes found during its scan.
\<close>

definition file_size :: "world \<Rightarrow> string \<Rightarrow> real" where
  "file_size w file = (case os_Stat w file of Inl err \<Rightarrow> 0 | Inr sz \<Rightarrow> real_of_int (sint sz))"

definition found_size :: "world \<Rightarrow> string list \<Rightarrow> real" where
  "found_size w files = sum_list (map (file_size w) files)"

text \<open>
  What makes a shard file count, said on the world: the database layer answers for it
  when \<^verbatim>\<open>sql.Open\<close> succeeds, the table names can be listed and the query of the
  extent succeeds on every listed table; the file system answers when \<^verbatim>\<open>os.Stat\<close>
  succeeds.
\<close>

definition extent_ok :: "world \<Rightarrow> string \<Rightarrow> string \<Rightarrow> bool" where
  "extent_ok w file tname =
     (case query_Extent w file (''select min(X), max(X), min(Y), max(Y) from '' @ tname) of
        Inl err \<Rightarrow> False
      | Inr extent \<Rightarrow> True)"

definition database_ok :: "world \<Rightarrow> string \<Rightarrow> bool" where
  "database_ok w file =
     (sql_Open w file = None \<and>
      (case listTables w file of
         Inl err \<Rightarrow> False
       | Inr names \<Rightarrow> list_all (extent_ok w file) names))"

definition stat_ok :: "world \<Rightarrow> string \<Rightarrow> bool" where
  "stat_ok w file = (case os_Stat w file of Inl err \<Rightarrow> False | Inr sz \<Rightarrow> True)"

text \<open>The sum of the sizes of the shard files for which both layers answer.\<close>

definition counted_size :: "world \<Rightarrow> string list \<Rightarrow> real" where
  "counted_size w files =
     sum_list (map (file_size w) (filter (\<lambda>file. database_ok w file \<and> stat_ok w file) files))"

text \<open>
  The tiles of a table are the bounds of its two corner tiles, \<open>(min X, min Y)\<close> and
  \<open>(max X, max Y)\<close>, at the zoom of the table's letter; the tiles of a shard file are
  those of its listed tables.
\<close>

definition table_tiles :: "world \<Rightarrow> string \<Rightarrow> string \<Rightarrow> Box list" where
  "table_tiles w file tname =
     (case query_Extent w file (''select min(X), max(X), min(Y), max(Y) from '' @ tname) of
        Inl err \<Rightarrow> []
      | Inr (tileXMin, tileXMax, tileYMin, tileYMax) \<Rightarrow>
          (case tname of
             [] \<Rightarrow> []
           | c # cs \<Rightarrow>
               [tileBound tileXMin tileYMin ((of_nat (of_char c) :: int32) - 65),
                tileBound tileXMax tileYMax ((of_nat (of_char c) :: int32) - 65)]))"

definition tile_boxes :: "world \<Rightarrow> string \<Rightarrow> Box list" where
  "tile_boxes w file =
     (case listTables w file of
        Inl err \<Rightarrow> []
      | Inr names \<Rightarrow> concat (map (table_tiles w file) names))"

text \<open>
  The union of a list of boxes, coordinate by coordinate: the least of the lower bounds
  and the greatest of the upper bounds, the bounds of the empty box among them. The
  accumulated box of a scan is the union of the tiles of the shard files for which the
  database layer answers.
\<close>

definition union_box :: "Box list \<Rightarrow> Box" where
  "union_box boxes =
     \<lparr>minx = Min (set (MaxFloat64 # map minx boxes)),
      miny = Min (set (MaxFloat64 # map miny boxes)),
      maxx = Max (set (- MaxFloat64 # map maxx boxes)),
      maxy = Max (set (- MaxFloat64 # map maxy boxes))\<rparr>"

definition accumulated_box :: "world \<Rightarrow> string list \<Rightarrow> Box" where
  "accumulated_box w files =
     union_box (concat (map (tile_boxes w) (filter (database_ok w) files)))"

section \<open>Example worlds\<close>

text \<open>A world where nothing exists, and a disk with no \<^verbatim>\<open>repository.json\<close> anywhere.\<close>

definition world_bare :: world where
  "world_bare =
     \<lparr>os_Stat = (\<lambda>p. Inl (ENOENT (''stat '' @ p @ '': no such file or directory''))),
      os_ReadDir = (\<lambda>p. Inl (ENOENT (''open '' @ p @ '': no such file or directory''))),
      sql_Open = (\<lambda>p. None),
      query_Data = (\<lambda>p q. Inl (Failure ''unable to open database file'')),
      query_Names = (\<lambda>p. Inl (Failure ''unable to open database file'')),
      query_Extent = (\<lambda>p q. Inl (Failure ''unable to open database file'')),
      os_Create = (\<lambda>p. None),
      file_Write = (\<lambda>p. None)\<rparr>"

definition disk_bare :: disk where
  "disk_bare = (\<lambda>p. OpenError (ENOENT (''open '' @ p @ '': no such file or directory'')))"

text \<open>The shard file of tile (300, 70) at zoom 10 exists, and its table has no row 428.\<close>

definition world_no_row :: world where
  "world_no_row = world_bare
     \<lparr>os_Stat := (\<lambda>p. if p = ''tiles/K/K_1_0.s'' then Inr 4096 else os_Stat world_bare p),
      query_Data := (\<lambda>p q. if p = ''tiles/K/K_1_0.s'' then Inr [] else query_Data world_bare p q)\<rparr>"

text \<open>A root with one repository \<^verbatim>\<open>r\<close>, an empty directory.\<close>

definition world_empty_repo :: world where
  "world_empty_repo = world_bare
     \<lparr>os_ReadDir := (\<lambda>p. if p = ''root'' then Inr [DirEntry ''r'' True]
                          else if p = ''root/r'' then Inr []
                          else os_ReadDir world_bare p)\<rparr>"

text \<open>
  A root with two repositories. In \<^verbatim>\<open>r\<close>, the letter directory \<^verbatim>\<open>K\<close> holds three shard
  files: \<^verbatim>\<open>K_0_0.s\<close> with one table of tiles, \<^verbatim>\<open>K_0_1.s\<close> that is not a database, and
  \<^verbatim>\<open>K_0_2.s\<close> with no table and no answer to \<^verbatim>\<open>os.Stat\<close>. In \<^verbatim>\<open>q\<close>, the letter directory
  \<^verbatim>\<open>L\<close> cannot be read.
\<close>

definition world_scan :: world where
  "world_scan = world_bare
     \<lparr>os_Stat := (\<lambda>p. if p = ''root/r/K/K_0_0.s'' then Inr 4096
                       else if p = ''root/r/K/K_0_1.s'' then Inr 512
                       else os_Stat world_bare p),
      os_ReadDir := (\<lambda>p. if p = ''root''
                            then Inr [DirEntry ''r'' True, DirEntry ''notes.txt'' False,
                                      DirEntry ''q'' True]
                          else if p = ''root/r'' then Inr [DirEntry ''K'' True, DirEntry ''tmp'' True]
                          else if p = ''root/r/K''
                            then Inr [DirEntry ''K_0_0.s'' False, DirEntry ''K_0_1.s'' False,
                                      DirEntry ''K_0_2.s'' False, DirEntry ''readme'' False]
                          else if p = ''root/q'' then Inr [DirEntry ''L'' True]
                          else if p = ''root/q/L'' then Inl (Failure ''permission denied'')
                          else os_ReadDir world_bare p),
      query_Names := (\<lambda>p. if p = ''root/r/K/K_0_0.s''
                             then Inr [Inr ''K_0_0'', Inr ''sqlite_sequence'']
                           else if p = ''root/r/K/K_0_1.s''
                             then Inl (Failure ''file is not a database'')
                           else if p = ''root/r/K/K_0_2.s'' then Inr []
                           else query_Names world_bare p),
      query_Extent := (\<lambda>p q. if p = ''root/r/K/K_0_0.s'' \<and>
                                 q = ''select min(X), max(X), min(Y), max(Y) from K_0_0''
                              then Inr (3, 5, 2, 7)
                              else query_Extent world_bare p q)\<rparr>"

text \<open>The box of \<^verbatim>\<open>K_0_0.s\<close> and the descriptor of \<^verbatim>\<open>r\<close> in that world.\<close>

definition box_K_0_0 :: Box where
  "box_K_0_0 = extend (extend NewBox (tileBound 3 2 10)) (tileBound 5 7 10)"

definition repo_r :: Repository where
  "repo_r =
     (let box = extend (extend NewBox box_K_0_0) NewBox
      in \<lparr>Name = ''r'', Lng = 0.5 * (minx box + maxx box), Lat = 0.5 * (miny box + maxy box),
          Zoom = 14, Size = 4096, Url = ''r'', Pared = True\<rparr>)"

section \<open>The tile address\<close>

lemma sint_word_small:
  "0 \<le> k \<Longrightarrow> k < 4096 \<Longrightarrow> sint (word_of_int k :: int64) = k"
  by (simp add: sint_sbintrunc' signed_take_bit_int_eq_self)

lemma rem64_nonneg:
  "0 \<le> sint x \<Longrightarrow> rem64 x 64 = word_of_int (sint x mod 64)"
  by (simp add: rem64_def signed_modulo_int_def sgn_if)

lemma sint_index_nonneg:
  assumes "0 \<le> sint x" "0 \<le> sint y"
  shows "sint (index x y) = sint x mod 64 + 64 * (sint y mod 64)"
proof -
  have e: "index x y = word_of_int (sint x mod 64 + 64 * (sint y mod 64))"
    using assms by (simp add: index_def rem64_nonneg)
  have lo: "0 \<le> sint x mod 64 + 64 * (sint y mod 64)"
    by (simp add: add_nonneg_nonneg)
  have hi: "sint x mod 64 + 64 * (sint y mod 64) < 4096"
    using pos_mod_bound [of 64 "sint x"] pos_mod_bound [of 64 "sint y"] by linarith
  show ?thesis
    unfolding e using lo hi by (rule sint_word_small)
qed

lemma row_pair_unique:
  fixes a b c d :: int
  assumes "a + 64 * b = c + 64 * d" "0 \<le> a" "a < 64" "0 \<le> c" "c < 64"
  shows "a = c \<and> b = d"
proof -
  have "b = d"
  proof (rule ccontr)
    assume "b \<noteq> d"
    then consider "b + 1 \<le> d" | "d + 1 \<le> b" by linarith
    then show False using assms by cases linarith+
  qed
  with assms show ?thesis by simp
qed

lemma address_zoom_9:
  "subDir 9 = ''J'' \<and> dbFile 300 70 9 = ''J_1_0.s'' \<and> tableName 300 70 9 = ''J_4_1''"
  by code_simp

text \<open>\<^verbatim>\<open>Join\<close> on directories that are not in clean form, and \<^verbatim>\<open>Clean\<close> at its corners.\<close>

lemma Join_cleans:
  "Join [''tiles/'', ''K'', ''K_1_0.s''] = ''tiles/K/K_1_0.s''"
  "Join [''./tiles//'', ''K'', ''K_1_0.s''] = ''tiles/K/K_1_0.s''"
  "Join [''/srv/maps/../tiles'', ''K'', ''K_1_0.s''] = ''/srv/tiles/K/K_1_0.s''"
  "Join [[], ''K'', ''K_1_0.s''] = ''K/K_1_0.s''"
  "Join [[], []] = []"
  "Clean [] = ''.''" "Clean ''a/..'' = ''.''" "Clean ''/../a'' = ''/a''"
  "Clean ''../a/../..'' = ''../..''" "Clean ''/'' = ''/''"
  by code_simp+

lemma filePath_scenario_A: "filePath \<lparr>dir = ''tiles''\<rparr> 300 70 10 = ''tiles/K/K_1_0.s''"
  by code_simp

text \<open>
  C3. The request \<open>x = 300\<close>, \<open>y = 70\<close>, \<open>zoom = 10\<close> resolves to the subdirectory
  \<^verbatim>\<open>K\<close>, the shard file \<^verbatim>\<open>K_1_0.s\<close>, the table \<^verbatim>\<open>K_4_1\<close> and the row 428; under the
  repository directory \<^verbatim>\<open>tiles\<close> the shard is \<^verbatim>\<open>tiles/K/K_1_0.s\<close>.
\<close>

theorem resolve_scenario_A:
  "subDir 10 = ''K'' \<and> dbFile 300 70 10 = ''K_1_0.s'' \<and> tableName 300 70 10 = ''K_4_1'' \<and>
   index 300 70 = 428 \<and> filePath \<lparr>dir = ''tiles''\<rparr> 300 70 10 = ''tiles/K/K_1_0.s'' \<and>
   selectSql 300 70 10 = ''select Data from K_4_1 where ID=428''"
  by code_simp

text \<open>
  C4. For tile coordinates \<open>x \<ge> 0\<close> and \<open>y \<ge> 0\<close> the row index is
  \<open>(x mod 64) + 64 * (y mod 64)\<close> and lies between 0 and 4095, and two tiles with
  distinct pairs of remainders get distinct row indices (whatever their blocks, so in
  particular inside one block of 64 by 64 tiles).
\<close>

theorem index_range_injective:
  assumes "0 \<le>s x" "0 \<le>s y" "0 \<le>s x'" "0 \<le>s y'"
  shows "0 \<le> sint (index x y) \<and> sint (index x y) \<le> 4095 \<and>
         sint (index x y) = sint x mod 64 + 64 * (sint y mod 64) \<and>
         ((rem64 x 64, rem64 y 64) \<noteq> (rem64 x' 64, rem64 y' 64) \<longrightarrow>
            index x y \<noteq> index x' y')"
proof -
  have nn: "0 \<le> sint x" "0 \<le> sint y" "0 \<le> sint x'" "0 \<le> sint y'"
    using assms by (simp_all add: word_sle_eq)
  have i: "sint (index x y) = sint x mod 64 + 64 * (sint y mod 64)"
    and i': "sint (index x' y') = sint x' mod 64 + 64 * (sint y' mod 64)"
    using nn by (simp_all add: sint_index_nonneg)
  have bx: "0 \<le> sint x mod 64" "sint x mod 64 < 64"
    and bx': "0 \<le> sint x' mod 64" "sint x' mod 64 < 64"
    and bnd_y: "0 \<le> sint y mod 64" "sint y mod 64 < 64"
    and bnd_y': "0 \<le> sint y' mod 64" "sint y' mod 64 < 64"
    by simp_all
  have range: "0 \<le> sint (index x y) \<and> sint (index x y) \<le> 4095"
    using i bx bnd_y by linarith
  have inj: "index x y \<noteq> index x' y'"
    if ne: "(rem64 x 64, rem64 y 64) \<noteq> (rem64 x' 64, rem64 y' 64)"
  proof
    assume "index x y = index x' y'"
    then have "sint x mod 64 + 64 * (sint y mod 64) = sint x' mod 64 + 64 * (sint y' mod 64)"
      using i i' by simp
    then have "sint x mod 64 = sint x' mod 64 \<and> sint y mod 64 = sint y' mod 64"
      using bx bx' by (rule row_pair_unique)
    then have "rem64 x 64 = rem64 x' 64 \<and> rem64 y 64 = rem64 y' 64"
      using nn by (simp add: rem64_nonneg)
    with ne show False by simp
  qed
  show ?thesis using range i inj by blast
qed

theorem index_range_injective_witness:
  "0 \<le>s (300 :: int64) \<and> 0 \<le>s (70 :: int64) \<and> 0 \<le>s (301 :: int64) \<and>
   sint (index 300 70) = 428 \<and>
   (rem64 300 64, rem64 70 64) \<noteq> (rem64 301 64, rem64 70 64) \<and>
   index 300 70 \<noteq> index 301 70"
  using index_range_injective [of 300 70 301 70]
  by (simp add: rem64_def signed_modulo_int_def word_sle_eq)

text \<open>
  C6. For a zoom below 9, the subdirectory, the shard file, the table and the statement
  that selects the row are those of zoom 9, and so is the whole fetch.
\<close>

theorem zoom_clamp:
  assumes "z <s 9"
  shows "subDir z = subDir 9 \<and> dbFile x y z = dbFile x y 9 \<and>
         tableName x y z = tableName x y 9 \<and> selectSql x y z = selectSql x y 9 \<and>
         filePath f x y z = filePath f x y 9 \<and> GetXYZ w f x y z = GetXYZ w f x y 9"
proof -
  have v: "vz z = vz 9"
    using assms by (simp add: vz_def max8_def)
  have s: "subDir z = subDir 9"
    by (simp add: subDir_def v)
  have d: "dbFile x y z = dbFile x y 9"
    by (simp add: dbFile_def v)
  have t: "tableName x y z = tableName x y 9"
    by (simp add: tableName_def v)
  have q: "selectSql x y z = selectSql x y 9"
    by (simp add: selectSql_def t)
  have p: "filePath f x y z = filePath f x y 9"
    by (simp only: filePath_def s d)
  have "GetXYZ w f x y z = GetXYZ w f x y 9"
    by (simp only: GetXYZ_def p q)
  with s d t q p show ?thesis by simp
qed

theorem zoom_clamp_witness:
  "(3 :: int8) <s 9 \<and> subDir 3 = ''J'' \<and> dbFile 300 70 3 = ''J_1_0.s'' \<and>
   (- 5 :: int8) <s 9 \<and> tableName 300 70 (- 5) = ''J_4_1''"
  using zoom_clamp [of 3 300 70] zoom_clamp [of "- 5" 300 70] address_zoom_9
  by simp

section \<open>Fetching a tile\<close>

text \<open>
  C5. When the shard file does not exist, \<^verbatim>\<open>GetXYZ\<close> returns the error
  \<^verbatim>\<open>"<path> not exist"\<close> after the single call \<^verbatim>\<open>os.Stat\<close>: it opens no database and
  sends no query. In every world, \<^verbatim>\<open>os.Stat\<close> on the shard path is the first call.
\<close>

theorem missing_shard_not_opened:
  assumes "IsNotExist (err_of (os_Stat w (filePath f x y z)))"
  shows "GetXYZ w f x y z =
           (Inl (Errorf (filePath f x y z @ '' not exist'')), [EvStat (filePath f x y z)]) \<and>
         EvOpen p \<notin> set (snd (GetXYZ w f x y z)) \<and>
         EvQuery p q \<notin> set (snd (GetXYZ w f x y z)) \<and>
         take 1 (snd (GetXYZ w' f x y z)) = [EvStat (filePath f x y z)]"
proof -
  have "take 1 (snd (GetXYZ w' f x y z)) = [EvStat (filePath f x y z)]"
    by (simp add: GetXYZ_def Let_def split: option.split sum.split list.split)
  then show ?thesis
    using assms by (simp add: GetXYZ_def Let_def)
qed

theorem missing_shard_not_opened_witness:
  "IsNotExist (err_of (os_Stat world_bare (filePath \<lparr>dir = ''tiles''\<rparr> 300 70 10))) \<and>
   GetXYZ world_bare \<lparr>dir = ''tiles''\<rparr> 300 70 10 =
     (Inl (Errorf ''tiles/K/K_1_0.s not exist''), [EvStat ''tiles/K/K_1_0.s''])"
  using missing_shard_not_opened [of world_bare "\<lparr>dir = ''tiles''\<rparr>" 300 70 10]
  by (simp add: filePath_scenario_A world_bare_def)

text \<open>
  C10. \<^verbatim>\<open>GetXYZ\<close> returns the same error, with the message \<^verbatim>\<open>"<path> not exist"\<close> on
  the path of the shard file, when the shard file is missing and when the shard opens
  and the query returns no row.
\<close>

theorem not_found_same_error:
  assumes "IsNotExist (err_of (os_Stat w1 (filePath f x y z)))"
    and "\<not> IsNotExist (err_of (os_Stat w2 (filePath f x y z)))"
    and "sql_Open w2 (filePath f x y z) = None"
    and "query_Data w2 (filePath f x y z) (selectSql x y z) = Inr []"
  shows "fst (GetXYZ w1 f x y z) = Inl (Errorf (filePath f x y z @ '' not exist'')) \<and>
         fst (GetXYZ w2 f x y z) = fst (GetXYZ w1 f x y z) \<and>
         EvOpen (filePath f x y z) \<in> set (snd (GetXYZ w2 f x y z))"
  using assms by (simp add: GetXYZ_def Let_def)

theorem not_found_same_error_witness:
  "IsNotExist (err_of (os_Stat world_bare (filePath \<lparr>dir = ''tiles''\<rparr> 300 70 10))) \<and>
   \<not> IsNotExist (err_of (os_Stat world_no_row (filePath \<lparr>dir = ''tiles''\<rparr> 300 70 10))) \<and>
   sql_Open world_no_row (filePath \<lparr>dir = ''tiles''\<rparr> 300 70 10) = None \<and>
   query_Data world_no_row (filePath \<lparr>dir = ''tiles''\<rparr> 300 70 10) (selectSql 300 70 10) = Inr [] \<and>
   fst (GetXYZ world_bare \<lparr>dir = ''tiles''\<rparr> 300 70 10) =
     Inl (Errorf ''tiles/K/K_1_0.s not exist'') \<and>
   fst (GetXYZ world_no_row \<lparr>dir = ''tiles''\<rparr> 300 70 10) =
     Inl (Errorf ''tiles/K/K_1_0.s not exist'')"
  using not_found_same_error [of world_bare "\<lparr>dir = ''tiles''\<rparr>" 300 70 10 world_no_row]
  by (simp add: filePath_scenario_A world_bare_def world_no_row_def)

section \<open>Boxes and the projection\<close>

lemma MaxFloat64_ge_180: "180 \<le> MaxFloat64"
proof -
  have "(2::real) ^ 971 * 2 \<le> 2 ^ 971 * 2 ^ 53"
    by (intro mult_left_mono) simp_all
  then have "(2::real) ^ 971 * 2 \<le> 2 ^ 1024"
    by (simp flip: power_add)
  moreover have "(180::real) \<le> 2 ^ 971"
  proof -
    have "(2::real) ^ 8 \<le> 2 ^ 971"
      by (rule power_increasing) simp_all
    then show ?thesis by simp
  qed
  ultimately show ?thesis by (simp add: MaxFloat64_def)
qed

text \<open>
  C8. Extending the empty box \<^verbatim>\<open>NewBox()\<close> with a box \<open>B\<close> of finite coordinates gives
  \<open>B\<close>, and extending any box with itself gives that box.
\<close>

theorem extend_identity_idempotent:
  "(finite_box B \<longrightarrow> extend NewBox B = B) \<and> extend B B = B"
  by (simp add: finite_box_def finite_float64_def extend_def NewBox_def min_def max_def)

theorem extend_identity_idempotent_witness:
  "finite_box \<lparr>minx = 112, miny = 39, maxx = 114, maxy = 41\<rparr> \<and>
   extend NewBox \<lparr>minx = 112, miny = 39, maxx = 114, maxy = 41\<rparr> =
     \<lparr>minx = 112, miny = 39, maxx = 114, maxy = 41\<rparr>"
  using extend_identity_idempotent [of "\<lparr>minx = 112, miny = 39, maxx = 114, maxy = 41\<rparr>"]
    MaxFloat64_ge_180
  by (simp add: finite_box_def finite_float64_def)

lemma Pow_2: "(2::real) powr real_of_int k = 2 powi k"
  by (simp add: powr_real_of_int')

lemma Pow_2_zoom: "(2::real) powr signed (zoom :: int32) = 2 powi sint zoom"
  using Pow_2 [of "sint zoom"] by simp

text \<open>
  C9. With \<open>res = (2 * pi * 6378137 / 256) / 2 ^ zoom\<close> and \<open>S = pi * 6378137\<close>,
  \<^verbatim>\<open>pixelsToMeters\<close> returns \<open>(px * res - S, - (py * res - S))\<close>, and \<^verbatim>\<open>meterToLngLat\<close>
  returns \<open>(mx / S) * 180\<close> and the inverse Mercator latitude of \<open>(my / S) * 180\<close>, on
  every input (over the reals, without rounding).
\<close>

theorem projector_formulas:
  "(let S = pi * 6378137;
        res = (2 * pi * 6378137 / 256) / (2 powi sint zoom)
    in pixelsToMeters px py zoom = (px * res - S, - (py * res - S)) \<and>
       meterToLngLat mx my =
         ((mx / S) * 180,
          (180 / pi) * (2 * arctan (exp (((my / S) * 180) * pi / 180)) - pi / 2)))"
  by (simp add: pixelsToMeters_def meterToLngLat_def INITIALIZE_RESOLUTION_def
      ORIGIN_SHIFT_def Let_def Pow_2_zoom)

section \<open>The scan\<close>

text \<open>Every name that \<^verbatim>\<open>listTables\<close> keeps has a first byte, so \<^verbatim>\<open>tableName[0]\<close> in
  \<^verbatim>\<open>calExtend\<close> does not panic.\<close>

lemma table_rows_nonempty: "tname \<in> set (table_rows rows) \<Longrightarrow> tname \<noteq> []"
  by (induction rows rule: table_rows.induct) (auto split: if_splits)

text \<open>\<^verbatim>\<open>calExtend\<close> returns a box exactly for the files the database layer answers for,
  and the box is \<^verbatim>\<open>NewBox()\<close> extended by the tiles of the file.\<close>

lemma extend_tables_ok:
  assumes "\<forall>tname \<in> set names. tname \<noteq> []" and "list_all (extent_ok w db) names"
  shows "extend_tables w db names box =
           Inr (foldl extend box (concat (map (table_tiles w db) names)))"
  using assms
proof (induction names arbitrary: box)
  case Nil
  then show ?case by simp
next
  case (Cons tname names)
  from Cons.prems obtain c cs where n: "tname = c # cs"
    by (cases tname) auto
  from Cons.prems obtain a b c' d where
    q: "query_Extent w db (''select min(X), max(X), min(Y), max(Y) from '' @ tname) = Inr (a, b, c', d)"
    by (auto simp: extent_ok_def split: sum.splits)
  let ?box = "extend (extend box (tileBound a c' (of_nat (of_char c) - 65)))
                 (tileBound b d (of_nat (of_char c) - 65))"
  have t: "table_tiles w db tname =
             [tileBound a c' (of_nat (of_char c) - 65), tileBound b d (of_nat (of_char c) - 65)]"
    using q n by (simp add: table_tiles_def)
  have "extend_tables w db names ?box =
          Inr (foldl extend ?box (concat (map (table_tiles w db) names)))"
    using Cons.prems by (intro Cons.IH) simp_all
  with q n t show ?case
    by (simp add: Let_def)
qed

lemma extend_tables_fail:
  "\<not> list_all (extent_ok w db) names \<Longrightarrow> \<exists>err. extend_tables w db names box = Inl err"
proof (induction names arbitrary: box)
  case Nil
  then show ?case by simp
next
  case (Cons tname names)
  show ?case
  proof (cases "extent_ok w db tname")
    case False
    then show ?thesis by (auto simp: extent_ok_def split: sum.splits)
  next
    case True
    with Cons.prems have "\<not> list_all (extent_ok w db) names" by simp
    from Cons.IH [OF this] True show ?thesis
      by (cases tname) (auto simp: extent_ok_def Let_def split: sum.splits)
  qed
qed

lemma calExtend_ok:
  assumes "database_ok w file"
  shows "calExtend w file = Inr (foldl extend NewBox (tile_boxes w file))"
proof -
  from assms obtain names where
    o: "sql_Open w file = None" and l: "listTables w file = Inr names" and
    e: "list_all (extent_ok w file) names"
    by (auto simp: database_ok_def split: sum.splits)
  from l have "\<forall>tname \<in> set names. tname \<noteq> []"
    by (auto simp: listTables_def split: sum.splits dest: table_rows_nonempty)
  from extend_tables_ok [OF this e] o l show ?thesis
    by (simp add: calExtend_def tile_boxes_def)
qed

lemma calExtend_fail:
  assumes "\<not> database_ok w file"
  shows "\<exists>err. calExtend w file = Inl err"
proof (cases "sql_Open w file")
  case (Some err)
  then show ?thesis by (simp add: calExtend_def)
next
  case None
  show ?thesis
  proof (cases "listTables w file")
    case (Inl err)
    with None show ?thesis by (simp add: calExtend_def)
  next
    case (Inr names)
    with None assms have "\<not> list_all (extent_ok w file) names"
      by (simp add: database_ok_def)
    from extend_tables_fail [OF this] None Inr show ?thesis
      by (simp add: calExtend_def)
  qed
qed

text \<open>The loops compute the box and the size from the files that count.\<close>

lemma scan_files_sums:
  "scan_files w files (box, sz) =
     (foldl extend box
        (map (\<lambda>file. foldl extend NewBox (tile_boxes w file)) (filter (database_ok w) files)),
      sz + counted_size w files)"
proof (induction files arbitrary: box sz)
  case Nil
  then show ?case by (simp add: counted_size_def)
next
  case (Cons shard files)
  show ?case
  proof (cases "database_ok w shard")
    case False
    then obtain err where "calExtend w shard = Inl err"
      using calExtend_fail by blast
    with False Cons.IH show ?thesis by (simp add: counted_size_def)
  next
    case True
    note c = calExtend_ok [OF True]
    show ?thesis
    proof (cases "os_Stat w shard")
      case (Inl err)
      with True c Cons.IH show ?thesis
        by (simp add: counted_size_def stat_ok_def)
    next
      case (Inr sz')
      with True c Cons.IH show ?thesis
        by (simp add: counted_size_def stat_ok_def file_size_def)
    qed
  qed
qed

lemma scan_subdirs_sums:
  "scan_subdirs w subdirs (box, sz) = Inr (box', sz') \<Longrightarrow>
     box' = foldl extend box
        (map (\<lambda>file. foldl extend NewBox (tile_boxes w file))
           (filter (database_ok w) (scanned_files w subdirs))) \<and>
     sz' = sz + counted_size w (scanned_files w subdirs)"
proof (induction subdirs arbitrary: box sz)
  case Nil
  then show ?case by (simp add: scanned_files_def counted_size_def)
next
  case (Cons sub subdirs)
  from Cons.prems obtain files where files: "listAllFile w sub = Inr files"
    by (auto split: sum.splits)
  obtain b1 s1 where step: "scan_files w files (box, sz) = (b1, s1)"
    by (cases "scan_files w files (box, sz)")
  with Cons.prems files have "scan_subdirs w subdirs (b1, s1) = Inr (box', sz')"
    by simp
  from Cons.IH [OF this] step files show ?case
    by (simp add: scan_files_sums scanned_files_def counted_size_def)
qed

text \<open>A box extended by a list of boxes has the least lower bounds and the greatest upper
  bounds of them all.\<close>

lemma Min_insert_min:
  fixes x y :: real
  assumes "finite S"
  shows "Min (insert (min x y) S) = Min (insert x (insert y S))"
proof (cases "S = {}")
  case True
  then show ?thesis by simp
next
  case False
  with assms show ?thesis by (simp add: min.assoc)
qed

lemma Max_insert_max:
  fixes x y :: real
  assumes "finite S"
  shows "Max (insert (max x y) S) = Max (insert x (insert y S))"
proof (cases "S = {}")
  case True
  then show ?thesis by simp
next
  case False
  with assms show ?thesis by (simp add: max.assoc)
qed

lemma foldl_extend_lower:
  fixes f :: "Box \<Rightarrow> real"
  assumes "\<And>b a. f (extend b a) = min (f b) (f a)"
  shows "f (foldl extend b bs) = Min (insert (f b) (f ` set bs))"
proof (induction bs arbitrary: b)
  case Nil
  then show ?case by simp
next
  case (Cons a bs)
  have "f (foldl extend b (a # bs)) = f (foldl extend (extend b a) bs)"
    by simp
  also have "\<dots> = Min (insert (f (extend b a)) (f ` set bs))"
    by (rule Cons.IH)
  also have "\<dots> = Min (insert (min (f b) (f a)) (f ` set bs))"
    by (simp only: assms)
  also have "\<dots> = Min (insert (f b) (insert (f a) (f ` set bs)))"
    by (rule Min_insert_min) simp
  also have "insert (f a) (f ` set bs) = f ` set (a # bs)"
    by simp
  finally show ?case .
qed

lemma foldl_extend_upper:
  fixes f :: "Box \<Rightarrow> real"
  assumes "\<And>b a. f (extend b a) = max (f b) (f a)"
  shows "f (foldl extend b bs) = Max (insert (f b) (f ` set bs))"
proof (induction bs arbitrary: b)
  case Nil
  then show ?case by simp
next
  case (Cons a bs)
  have "f (foldl extend b (a # bs)) = f (foldl extend (extend b a) bs)"
    by simp
  also have "\<dots> = Max (insert (f (extend b a)) (f ` set bs))"
    by (rule Cons.IH)
  also have "\<dots> = Max (insert (max (f b) (f a)) (f ` set bs))"
    by (simp only: assms)
  also have "\<dots> = Max (insert (f b) (insert (f a) (f ` set bs)))"
    by (rule Max_insert_max) simp
  also have "insert (f a) (f ` set bs) = f ` set (a # bs)"
    by simp
  finally show ?case .
qed

text \<open>The least of the least elements of lists is the least element of them all.\<close>

lemma Min_of_Mins:
  fixes m :: real
  assumes "\<And>x. F x = Min (insert m (G x))" and "\<And>x. finite (G x)"
  shows "Min (insert m (F ` set xs)) = Min (insert m (\<Union>x \<in> set xs. G x))"
proof (induction xs)
  case Nil
  then show ?case by simp
next
  case (Cons x xs)
  have e: "insert m (F ` set (x # xs)) = insert (F x) (insert m (F ` set xs))"
    by auto
  have "Min (insert (F x) (insert m (F ` set xs))) = min (F x) (Min (insert m (F ` set xs)))"
    by (rule Min_insert) simp_all
  also have "\<dots> = min (Min (insert m (G x))) (Min (insert m (\<Union>x \<in> set xs. G x)))"
    by (simp only: Cons.IH assms(1))
  also have "\<dots> = Min (insert m (G x) \<union> insert m (\<Union>x \<in> set xs. G x))"
    by (rule Min_Un [symmetric]) (simp_all add: assms(2))
  also have "insert m (G x) \<union> insert m (\<Union>x \<in> set xs. G x) =
             insert m (\<Union>x \<in> set (x # xs). G x)"
    by auto
  finally show ?case by (simp only: e)
qed

lemma Max_of_Maxs:
  fixes m :: real
  assumes "\<And>x. F x = Max (insert m (G x))" and "\<And>x. finite (G x)"
  shows "Max (insert m (F ` set xs)) = Max (insert m (\<Union>x \<in> set xs. G x))"
proof (induction xs)
  case Nil
  then show ?case by simp
next
  case (Cons x xs)
  have e: "insert m (F ` set (x # xs)) = insert (F x) (insert m (F ` set xs))"
    by auto
  have "Max (insert (F x) (insert m (F ` set xs))) = max (F x) (Max (insert m (F ` set xs)))"
    by (rule Max_insert) simp_all
  also have "\<dots> = max (Max (insert m (G x))) (Max (insert m (\<Union>x \<in> set xs. G x)))"
    by (simp only: Cons.IH assms(1))
  also have "\<dots> = Max (insert m (G x) \<union> insert m (\<Union>x \<in> set xs. G x))"
    by (rule Max_Un [symmetric]) (simp_all add: assms(2))
  also have "insert m (G x) \<union> insert m (\<Union>x \<in> set xs. G x) =
             insert m (\<Union>x \<in> set (x # xs). G x)"
    by auto
  finally show ?case by (simp only: e)
qed

lemma scanned_lower:
  fixes f :: "Box \<Rightarrow> real"
  assumes "\<And>b a. f (extend b a) = min (f b) (f a)" and "f NewBox = MaxFloat64"
  shows "f (foldl extend NewBox (map (\<lambda>shard. foldl extend NewBox (tile_boxes w shard)) files)) =
         Min (set (MaxFloat64 # map f (concat (map (tile_boxes w) files))))"
proof -
  let ?g = "\<lambda>shard. foldl extend NewBox (tile_boxes w shard)"
  have g: "f (?g shard) = Min (insert MaxFloat64 (f ` set (tile_boxes w shard)))" for shard
    using foldl_extend_lower [of f NewBox "tile_boxes w shard"] assms by simp
  have "f (foldl extend NewBox (map ?g files)) =
        Min (insert MaxFloat64 ((\<lambda>shard. f (?g shard)) ` set files))"
    using foldl_extend_lower [of f NewBox "map ?g files"] assms by (simp add: image_image)
  also have "\<dots> = Min (insert MaxFloat64 (\<Union>shard \<in> set files. f ` set (tile_boxes w shard)))"
    by (rule Min_of_Mins) (simp_all only: g finite_imageI finite_set)
  also have "insert MaxFloat64 (\<Union>shard \<in> set files. f ` set (tile_boxes w shard)) =
             set (MaxFloat64 # map f (concat (map (tile_boxes w) files)))"
    by auto
  finally show ?thesis .
qed

lemma scanned_upper:
  fixes f :: "Box \<Rightarrow> real"
  assumes "\<And>b a. f (extend b a) = max (f b) (f a)" and "f NewBox = - MaxFloat64"
  shows "f (foldl extend NewBox (map (\<lambda>shard. foldl extend NewBox (tile_boxes w shard)) files)) =
         Max (set (- MaxFloat64 # map f (concat (map (tile_boxes w) files))))"
proof -
  let ?g = "\<lambda>shard. foldl extend NewBox (tile_boxes w shard)"
  have g: "f (?g shard) = Max (insert (- MaxFloat64) (f ` set (tile_boxes w shard)))" for shard
    using foldl_extend_upper [of f NewBox "tile_boxes w shard"] assms by simp
  have "f (foldl extend NewBox (map ?g files)) =
        Max (insert (- MaxFloat64) ((\<lambda>shard. f (?g shard)) ` set files))"
    using foldl_extend_upper [of f NewBox "map ?g files"] assms by (simp add: image_image)
  also have "\<dots> = Max (insert (- MaxFloat64) (\<Union>shard \<in> set files. f ` set (tile_boxes w shard)))"
    by (rule Max_of_Maxs) (simp_all only: g finite_imageI finite_set)
  also have "insert (- MaxFloat64) (\<Union>shard \<in> set files. f ` set (tile_boxes w shard)) =
             set (- MaxFloat64 # map f (concat (map (tile_boxes w) files)))"
    by auto
  finally show ?thesis .
qed

lemma scanned_box_union:
  "foldl extend NewBox (map (\<lambda>shard. foldl extend NewBox (tile_boxes w shard)) files) =
     union_box (concat (map (tile_boxes w) files))"
proof (rule Box.equality)
  show "minx (foldl extend NewBox (map (\<lambda>shard. foldl extend NewBox (tile_boxes w shard)) files)) =
        minx (union_box (concat (map (tile_boxes w) files)))"
    using scanned_lower [of minx w files] by (simp add: extend_def NewBox_def union_box_def)
  show "miny (foldl extend NewBox (map (\<lambda>shard. foldl extend NewBox (tile_boxes w shard)) files)) =
        miny (union_box (concat (map (tile_boxes w) files)))"
    using scanned_lower [of miny w files] by (simp add: extend_def NewBox_def union_box_def)
  show "maxx (foldl extend NewBox (map (\<lambda>shard. foldl extend NewBox (tile_boxes w shard)) files)) =
        maxx (union_box (concat (map (tile_boxes w) files)))"
    using scanned_upper [of maxx w files] by (simp add: extend_def NewBox_def union_box_def)
  show "maxy (foldl extend NewBox (map (\<lambda>shard. foldl extend NewBox (tile_boxes w shard)) files)) =
        maxy (union_box (concat (map (tile_boxes w) files)))"
    using scanned_upper [of maxy w files] by (simp add: extend_def NewBox_def union_box_def)
qed simp

lemma analysisRepository_Inr:
  assumes "analysisRepository w dk baseDir entry = (Inr repo, dk')"
  obtains subdirs box fileSize where
    "listSubDir w (Join [baseDir, dName entry]) = Inr subdirs"
    "scan_subdirs w subdirs (NewBox, 0) = Inr (box, fileSize)"
    "repo = \<lparr>Name = dName entry, Lng = 0.5 * (minx box + maxx box),
             Lat = 0.5 * (miny box + maxy box), Zoom = 14, Size = fileSize,
             Url = dName entry, Pared = True\<rparr>"
    "dk' = dk(Join [baseDir, dName entry, ''repository.json''] := Content repo)"
  using assms unfolding analysisRepository_def Let_def
  by (auto split: sum.splits option.splits prod.splits)




subsection \<open>The example worlds, evaluated\<close>

lemma example_paths:
  "Join [''root'', ''r''] = ''root/r''"
  "Join [''root'', ''q''] = ''root/q''"
  "Join [''root'', ''zz''] = ''root/zz''"
  "Join [''root'', ''r'', ''repository.json''] = ''root/r/repository.json''"
  "Join [''root'', ''q'', ''repository.json''] = ''root/q/repository.json''"
  "Join [''root'', ''zz'', ''repository.json''] = ''root/zz/repository.json''"
  "Join [''root/r'', ''K''] = ''root/r/K''"
  "Join [''root/q'', ''L''] = ''root/q/L''"
  "Join [''root/r/K'', ''K_0_0.s''] = ''root/r/K/K_0_0.s''"
  "Join [''root/r/K'', ''K_0_1.s''] = ''root/r/K/K_0_1.s''"
  "Join [''root/r/K'', ''K_0_2.s''] = ''root/r/K/K_0_2.s''"
  by code_simp+

lemma world_scan_listSubDir: "listSubDir world_scan ''root/r'' = Inr [''root/r/K'']"
  by (simp add: example_paths listSubDir_def world_scan_def world_bare_def)

lemma world_scan_listAllFile:
  "listAllFile world_scan ''root/r/K'' =
     Inr [''root/r/K/K_0_0.s'', ''root/r/K/K_0_1.s'', ''root/r/K/K_0_2.s'']"
  by (simp add: example_paths listAllFile_def world_scan_def world_bare_def suffix_def)

lemma world_scan_sql_Open: "sql_Open world_scan p = None"
  by (simp add: world_scan_def world_bare_def)

lemma world_scan_K_0_0:
  "calExtend world_scan ''root/r/K/K_0_0.s'' = Inr box_K_0_0"
proof -
  have t: "listTables world_scan ''root/r/K/K_0_0.s'' = Inr [''K_0_0'']"
    by (simp add: listTables_def world_scan_def world_bare_def)
  have q: "query_Extent world_scan ''root/r/K/K_0_0.s''
             ''select min(X), max(X), min(Y), max(Y) from K_0_0'' = Inr (3, 5, 2, 7)"
    by (simp add: world_scan_def)
  show ?thesis by (simp add: calExtend_def world_scan_sql_Open t q box_K_0_0_def)
qed

lemma world_scan_K_0_1:
  "calExtend world_scan ''root/r/K/K_0_1.s'' = Inl (Failure ''file is not a database'')"
  by (simp add: calExtend_def listTables_def world_scan_def world_bare_def)

lemma world_scan_K_0_2: "calExtend world_scan ''root/r/K/K_0_2.s'' = Inr NewBox"
  by (simp add: calExtend_def listTables_def world_scan_def world_bare_def)

lemma world_scan_database_ok:
  "database_ok world_scan ''root/r/K/K_0_0.s''"
  "\<not> database_ok world_scan ''root/r/K/K_0_1.s''"
  "database_ok world_scan ''root/r/K/K_0_2.s''"
  by (simp_all add: database_ok_def extent_ok_def listTables_def world_scan_def world_bare_def)

lemma world_scan_tiles:
  "tile_boxes world_scan ''root/r/K/K_0_0.s'' = [tileBound 3 2 10, tileBound 5 7 10]"
  "tile_boxes world_scan ''root/r/K/K_0_2.s'' = []"
proof -
  have t: "listTables world_scan ''root/r/K/K_0_0.s'' = Inr [''K_0_0'']"
    by (simp add: listTables_def world_scan_def world_bare_def)
  have q: "query_Extent world_scan ''root/r/K/K_0_0.s''
             ''select min(X), max(X), min(Y), max(Y) from K_0_0'' = Inr (3, 5, 2, 7)"
    by (simp add: world_scan_def)
  show "tile_boxes world_scan ''root/r/K/K_0_0.s'' = [tileBound 3 2 10, tileBound 5 7 10]"
    by (simp add: tile_boxes_def table_tiles_def t q)
  show "tile_boxes world_scan ''root/r/K/K_0_2.s'' = []"
    by (simp add: tile_boxes_def listTables_def world_scan_def world_bare_def)
qed

lemma world_scan_Stat:
  "os_Stat world_scan ''root/r/K/K_0_0.s'' = Inr 4096"
  "os_Stat world_scan ''root/r/K/K_0_2.s'' =
     Inl (ENOENT ''stat root/r/K/K_0_2.s: no such file or directory'')"
  by (simp_all add: world_scan_def world_bare_def)

lemma world_scan_write: "os_Create world_scan p = None" "file_Write world_scan p = None"
  by (simp_all add: world_scan_def world_bare_def)

lemma world_scan_r:
  "analysisRepository world_scan disk_bare ''root'' (DirEntry ''r'' True) =
     (Inr repo_r, disk_bare(''root/r/repository.json'' := Content repo_r))"
  by (simp add: example_paths analysisRepository_def world_scan_listSubDir world_scan_listAllFile
      world_scan_K_0_0 world_scan_K_0_1 world_scan_K_0_2 world_scan_Stat world_scan_write
      repo_r_def Let_def)





section \<open>The claims on the scan\<close>

lemma tileBound_lon:
  "minx (tileBound tx ty zoom) = (2 * real_of_int (sint tx) / 2 powi sint zoom - 1) * 180"
  "maxx (tileBound tx ty zoom) = (2 * real_of_int (sint (tx + 1)) / 2 powi sint zoom - 1) * 180"
  by (simp_all add: tileBound_def pixelsToMeters_def meterToLngLat_def Let_def
      INITIALIZE_RESOLUTION_def ORIGIN_SHIFT_def Pow_2_zoom field_simps)

lemma world_scan_lon:
  "minx (tileBound 3 2 10) = - 22905 / 128" "maxx (tileBound 3 2 10) = - 11385 / 64 - 45 / 64"
  "minx (tileBound 5 7 10) = - 22905 / 128 + 45 / 64" "maxx (tileBound 5 7 10) = - 11385 / 64"
  by (simp_all add: tileBound_lon)

lemma world_scan_files:
  "repository_files world_scan ''root'' (DirEntry ''r'' True) =
     [''root/r/K/K_0_0.s'', ''root/r/K/K_0_1.s'', ''root/r/K/K_0_2.s'']"
  by (simp add: repository_files_def scanned_files_def example_paths world_scan_listSubDir
      world_scan_listAllFile)

lemma world_scan_sizes:
  "file_size world_scan ''root/r/K/K_0_0.s'' = 4096"
  "file_size world_scan ''root/r/K/K_0_1.s'' = 512"
  "file_size world_scan ''root/r/K/K_0_2.s'' = 0"
  "stat_ok world_scan ''root/r/K/K_0_0.s''"
  "\<not> stat_ok world_scan ''root/r/K/K_0_2.s''"
  by (simp_all add: file_size_def stat_ok_def world_scan_def world_bare_def)

text \<open>
  C7, as stated, fails. The scan of the repository \<^verbatim>\<open>r\<close> succeeds. The shard files it
  finds have 4096 and 512 bytes (the third has no size): the sum of all shard-file
  sizes found is 4608. The descriptor has the size 4096: the 512 bytes of
  \<^verbatim>\<open>K_0_1.s\<close>, which is not a database, are not in it.
\<close>

theorem skipped_shard_size_not_counted:
  "analysisRepository world_scan disk_bare ''root'' (DirEntry ''r'' True) =
     (Inr repo_r, disk_bare(''root/r/repository.json'' := Content repo_r)) \<and>
   Pared repo_r \<and>
   found_size world_scan (repository_files world_scan ''root'' (DirEntry ''r'' True)) = 4608 \<and>
   Size repo_r = 4096 \<and>
   Size repo_r \<noteq> found_size world_scan (repository_files world_scan ''root'' (DirEntry ''r'' True))"
  by (simp add: world_scan_r world_scan_files found_size_def world_scan_sizes repo_r_def Let_def)

text \<open>
  C7, amended. The descriptor of a successful scan has \<open>Pared = True\<close> and \<open>Zoom = 14\<close>.
  Its size is the sum of the sizes of the shard files for which the database layer
  and \<^verbatim>\<open>os.Stat\<close> both answer; a shard file that is skipped adds nothing. Its longitude
  and latitude are the midpoint of the accumulated box, the union of the tiles of the
  shard files for which the database layer answers.
\<close>

theorem scan_descriptor:
  assumes "analysisRepository w dk baseDir entry = (Inr repo, dk')"
  shows "Pared repo \<and> Zoom repo = 14 \<and>
         Size repo = counted_size w (repository_files w baseDir entry) \<and>
         Lng repo = (minx (accumulated_box w (repository_files w baseDir entry)) +
                     maxx (accumulated_box w (repository_files w baseDir entry))) / 2 \<and>
         Lat repo = (miny (accumulated_box w (repository_files w baseDir entry)) +
                     maxy (accumulated_box w (repository_files w baseDir entry))) / 2"
proof -
  from assms obtain subdirs box fileSize where
    sub: "listSubDir w (Join [baseDir, dName entry]) = Inr subdirs" and
    scan: "scan_subdirs w subdirs (NewBox, 0) = Inr (box, fileSize)" and
    repo: "repo = \<lparr>Name = dName entry, Lng = 0.5 * (minx box + maxx box),
             Lat = 0.5 * (miny box + maxy box), Zoom = 14, Size = fileSize,
             Url = dName entry, Pared = True\<rparr>"
    by (rule analysisRepository_Inr)
  from scan_subdirs_sums [OF scan] sub
  have "box = accumulated_box w (repository_files w baseDir entry)"
    and "fileSize = counted_size w (repository_files w baseDir entry)"
    by (simp_all add: accumulated_box_def repository_files_def scanned_box_union)
  with repo show ?thesis by simp
qed

theorem scan_descriptor_witness:
  "analysisRepository world_scan disk_bare ''root'' (DirEntry ''r'' True) =
     (Inr repo_r, disk_bare(''root/r/repository.json'' := Content repo_r)) \<and>
   repository_files world_scan ''root'' (DirEntry ''r'' True) =
     [''root/r/K/K_0_0.s'', ''root/r/K/K_0_1.s'', ''root/r/K/K_0_2.s''] \<and>
   Pared repo_r \<and> Zoom repo_r = 14 \<and> Size repo_r = 4096 \<and>
   counted_size world_scan
     [''root/r/K/K_0_0.s'', ''root/r/K/K_0_1.s'', ''root/r/K/K_0_2.s''] = 4096 \<and>
   minx (accumulated_box world_scan
     [''root/r/K/K_0_0.s'', ''root/r/K/K_0_1.s'', ''root/r/K/K_0_2.s'']) = - 22905 / 128 \<and>
   maxx (accumulated_box world_scan
     [''root/r/K/K_0_0.s'', ''root/r/K/K_0_1.s'', ''root/r/K/K_0_2.s'']) = - 11385 / 64 \<and>
   Lng repo_r = - 45675 / 256"
proof -
  have c: "counted_size world_scan
     [''root/r/K/K_0_0.s'', ''root/r/K/K_0_1.s'', ''root/r/K/K_0_2.s''] = 4096"
    by (simp add: counted_size_def world_scan_database_ok world_scan_sizes)
  have lo: "minx (accumulated_box world_scan
     [''root/r/K/K_0_0.s'', ''root/r/K/K_0_1.s'', ''root/r/K/K_0_2.s'']) = - 22905 / 128"
    using MaxFloat64_ge_180
    by (simp add: accumulated_box_def union_box_def world_scan_database_ok world_scan_tiles
        world_scan_lon)
  have hi: "maxx (accumulated_box world_scan
     [''root/r/K/K_0_0.s'', ''root/r/K/K_0_1.s'', ''root/r/K/K_0_2.s'']) = - 11385 / 64"
    using MaxFloat64_ge_180
    by (simp add: accumulated_box_def union_box_def world_scan_database_ok world_scan_tiles
        world_scan_lon)
  from scan_descriptor [OF world_scan_r] world_scan_r world_scan_files c lo hi
  show ?thesis by simp
qed

text \<open>
  C1, as the code runs it. A repository directory with no entry at all is scanned
  without an error: the listing returns a descriptor with \<open>Pared = True\<close>, \<open>Zoom = 14\<close>
  and the centre (0, 0), the midpoint of the empty box, and writes it to
  \<^verbatim>\<open>root/r/repository.json\<close>. \<^verbatim>\<open>IsEmpty\<close> is never asked.
\<close>

theorem empty_repository_is_analysed:
  "IsEmpty (accumulated_box world_empty_repo
      (repository_files world_empty_repo ''root'' (DirEntry ''r'' True))) \<and>
   ListRepositories world_empty_repo disk_bare ''root'' =
     (Inr [\<lparr>Name = ''r'', Lng = 0, Lat = 0, Zoom = 14, Size = 0, Url = ''r'', Pared = True\<rparr>],
      disk_bare(''root/r/repository.json'' :=
        Content \<lparr>Name = ''r'', Lng = 0, Lat = 0, Zoom = 14, Size = 0, Url = ''r'',
                 Pared = True\<rparr>))"
proof -
  have s: "listSubDir world_empty_repo ''root/r'' = Inr []"
    by (simp add: listSubDir_def world_empty_repo_def)
  have "IsEmpty (accumulated_box world_empty_repo
      (repository_files world_empty_repo ''root'' (DirEntry ''r'' True)))"
    by (simp add: repository_files_def example_paths s scanned_files_def accumulated_box_def
        union_box_def IsEmpty_def)
  moreover have "ListRepositories world_empty_repo disk_bare ''root'' =
     (Inr [\<lparr>Name = ''r'', Lng = 0, Lat = 0, Zoom = 14, Size = 0, Url = ''r'', Pared = True\<rparr>],
      disk_bare(''root/r/repository.json'' :=
        Content \<lparr>Name = ''r'', Lng = 0, Lat = 0, Zoom = 14, Size = 0, Url = ''r'',
                 Pared = True\<rparr>))"
    by (simp add: example_paths ListRepositories_def world_empty_repo_def world_bare_def disk_bare_def
        readRepositoryInfo_def analysisRepository_def listSubDir_def NewBox_def Let_def)
  ultimately show ?thesis by simp
qed







end
